theory Spec2Isabelle
  imports Complex_Main
begin

section \<open>The Open Library search client\<close>

text \<open>
  A shallow embedding of \<^verbatim>\<open>lib/open_library_api.py\<close>: the class \<^verbatim>\<open>Search\<close> with
  \<^verbatim>\<open>_build_url\<close>, \<^verbatim>\<open>get_search_results\<close>, \<^verbatim>\<open>get_search_results_json\<close> and
  \<^verbatim>\<open>get_user_search_results\<close>, and the interactive loop of the script.

  Everything the script does beyond computing a value is explicit: what it prints is
  appended to \<open>stdout\<close>, the HTTP session is a state that each request may change, and
  every exception is a value \<open>Inl e\<close> of a sum type.

  Two things stay outside. A \<^verbatim>\<open>print\<close> is taken to succeed: the runs in which
  standard output is closed, or cannot encode a text (a title with a lone surrogate),
  so that \<^verbatim>\<open>print\<close> itself raises, are not described. And what is not an
  \<^verbatim>\<open>Exception\<close> (an interrupt from the keyboard, the exit of the interpreter) is
  not modelled.
\<close>

subsection \<open>Strings, bytes and decoded JSON\<close>

text \<open>
  A Python \<^verbatim>\<open>str\<close> is a sequence of Unicode code points, and \<^verbatim>\<open>lower\<close>,
  \<^verbatim>\<open>strip\<close> and indexing act on code points, so a \<^verbatim>\<open>str\<close> is a list of code
  points here. \<open>py\<close> turns a HOL literal into one. A \<^verbatim>\<open>bytes\<close> value is a list of
  8-bit characters.
\<close>

type_synonym pystr = "nat list"

type_synonym bytes = "char list"

definition py :: "string \<Rightarrow> pystr" where
  "py s = map of_char s"

definition quoted :: "pystr \<Rightarrow> pystr" where
  \<comment> \<open>\<open>s\<close> between two apostrophes (code point 39)\<close>
  "quoted s = 39 # s @ [39]"

text \<open>
  What \<^verbatim>\<open>Response.json()\<close> returns: \<^verbatim>\<open>None\<close>, \<^verbatim>\<open>bool\<close>, \<^verbatim>\<open>int\<close>,
  \<^verbatim>\<open>float\<close>, \<^verbatim>\<open>str\<close>, \<^verbatim>\<open>list\<close> or \<^verbatim>\<open>dict\<close> with \<^verbatim>\<open>str\<close> keys. A dict
  is an association list read with \<open>map_of\<close>. A float is the real number it denotes;
  the code only ever asks whether it is zero.
\<close>

datatype json =
    JNull
  | JBool bool
  | JInt int
  | JFloat real
  | JStr pystr
  | JArr "json list"
  | JObj "(pystr \<times> json) list"

subsection \<open>Exceptions\<close>

text \<open>
  An exception is its class and its message (\<^verbatim>\<open>str(e)\<close>). The first five classes
  are \<^verbatim>\<open>requests.exceptions.RequestException\<close> and subclasses of it;
  \<^verbatim>\<open>requests.exceptions.JSONDecodeError\<close>, into which \<^verbatim>\<open>Response.json()\<close> turns
  the \<^verbatim>\<open>JSONDecodeError\<close> of the decoder, is among them from requests 2.27 on (it
  derives from \<^verbatim>\<open>InvalidJSONError\<close>, a \<^verbatim>\<open>RequestException\<close>); this is the
  requests modelled here. The other classes are built-in and no
  \<^verbatim>\<open>RequestException\<close>: among them \<^verbatim>\<open>ValueError\<close> and
  \<^verbatim>\<open>RecursionError\<close>, which the decoder raises on an integer of more digits than
  the interpreter converts and on a body nested deeper than its stack.
  Every class here derives from \<^verbatim>\<open>Exception\<close>.
\<close>

datatype exc_class =
    RequestException
  | ConnectionError
  | Timeout
  | HTTPError
  | JSONDecodeError
  | AttributeError
  | TypeError
  | KeyError
  | IndexError
  | EOFError
  | ValueError
  | RecursionError
  | OtherException

datatype py_exc = Exc exc_class pystr

fun is_RequestException :: "exc_class \<Rightarrow> bool" where
  "is_RequestException RequestException = True"
| "is_RequestException ConnectionError = True"
| "is_RequestException Timeout = True"
| "is_RequestException HTTPError = True"
| "is_RequestException JSONDecodeError = True"
| "is_RequestException _ = False"

definition and_then :: "py_exc + 'a \<Rightarrow> ('a \<Rightarrow> py_exc + 'b) \<Rightarrow> py_exc + 'b" where
  \<comment> \<open>sequencing of two statements: an exception of the first skips the second\<close>
  "and_then m f = (case m of Inl e \<Rightarrow> Inl e | Inr v \<Rightarrow> f v)"

subsection \<open>Built-in operations of Python\<close>

text \<open>\<^verbatim>\<open>s.replace(old, new)\<close>: the occurrences of \<open>old\<close>, found from the left and not
  overlapping, become \<open>new\<close>; an empty \<open>old\<close> matches before every character and at the
  end.\<close>

function replace :: "pystr \<Rightarrow> pystr \<Rightarrow> pystr \<Rightarrow> pystr" where
  "replace old new s =
     (if old = [] then new @ concat (map (\<lambda>c. c # new) s)
      else if s = [] then []
      else if take (length old) s = old then new @ replace old new (drop (length old) s)
      else hd s # replace old new (tl s))"
  by pat_completeness auto
termination
  by (relation "measure (\<lambda>(old, new, s). length s)") auto

declare replace.simps [simp del]

text \<open>\<^verbatim>\<open>sep.join(xs)\<close>\<close>

fun join :: "pystr \<Rightarrow> pystr list \<Rightarrow> pystr" where
  "join sep [] = []"
| "join sep [x] = x"
| "join sep (x # y # ys) = x @ sep @ join sep (y # ys)"

text \<open>\<^verbatim>\<open>str(n)\<close> of an integer: decimal digits, with a minus sign when negative.\<close>

function str_nat :: "nat \<Rightarrow> pystr" where
  "str_nat n = (if n < 10 then [48 + n] else str_nat (n div 10) @ [48 + n mod 10])"
  by pat_completeness auto
termination
  by (relation "measure id") auto

declare str_nat.simps [simp del]

definition str_int :: "int \<Rightarrow> pystr" where
  "str_int i = (if i < 0 then 45 # str_nat (nat (- i)) else str_nat (nat i))"

text \<open>Truth value of a decoded value, as \<^verbatim>\<open>not x\<close> and \<^verbatim>\<open>x or y\<close> test it.\<close>

fun truthy :: "json \<Rightarrow> bool" where
  "truthy JNull = False"
| "truthy (JBool b) = b"
| "truthy (JInt i) = (i \<noteq> 0)"
| "truthy (JFloat x) = (x \<noteq> 0)"
| "truthy (JStr s) = (s \<noteq> [])"
| "truthy (JArr xs) = (xs \<noteq> [])"
| "truthy (JObj kvs) = (kvs \<noteq> [])"

fun type_name :: "json \<Rightarrow> pystr" where
  "type_name JNull = py ''NoneType''"
| "type_name (JBool b) = py ''bool''"
| "type_name (JInt i) = py ''int''"
| "type_name (JFloat x) = py ''float''"
| "type_name (JStr s) = py ''str''"
| "type_name (JArr xs) = py ''list''"
| "type_name (JObj kvs) = py ''dict''"

text \<open>\<^verbatim>\<open>x.get(k, d)\<close>: only a dict has the method.\<close>

fun dict_get :: "json \<Rightarrow> pystr \<Rightarrow> json \<Rightarrow> py_exc + json" where
  "dict_get (JObj kvs) k d = Inr (case map_of kvs k of None \<Rightarrow> d | Some v \<Rightarrow> v)"
| "dict_get x k d =
     Inl (Exc AttributeError
       (quoted (type_name x) @ py '' object has no attribute '' @ quoted (py ''get'')))"

text \<open>\<^verbatim>\<open>x[k]\<close> for a \<^verbatim>\<open>str\<close> key \<open>k\<close>. (The message of the \<^verbatim>\<open>KeyError\<close> is the
  \<^verbatim>\<open>repr\<close> of the key, which for a key without apostrophe, backslash or control
  character is the key between apostrophes.)\<close>

fun getitem_key :: "json \<Rightarrow> pystr \<Rightarrow> py_exc + json" where
  "getitem_key (JObj kvs) k =
     (case map_of kvs k of None \<Rightarrow> Inl (Exc KeyError (quoted k)) | Some v \<Rightarrow> Inr v)"
| "getitem_key (JArr xs) k =
     Inl (Exc TypeError (py ''list indices must be integers or slices, not str''))"
| "getitem_key (JStr s) k =
     Inl (Exc TypeError (py ''string indices must be integers, not '' @ quoted (py ''str'')))"
| "getitem_key x k =
     Inl (Exc TypeError (quoted (type_name x) @ py '' object is not subscriptable''))"

text \<open>\<^verbatim>\<open>x[0]\<close>: the first element of a list, the first character of a string; an empty
  one raises \<^verbatim>\<open>IndexError\<close>; a dict decoded from JSON has no key \<open>0\<close>; nothing else
  can be subscripted.\<close>

fun getitem_0 :: "json \<Rightarrow> py_exc + json" where
  "getitem_0 (JArr []) = Inl (Exc IndexError (py ''list index out of range''))"
| "getitem_0 (JArr (x # xs)) = Inr x"
| "getitem_0 (JStr []) = Inl (Exc IndexError (py ''string index out of range''))"
| "getitem_0 (JStr (c # cs)) = Inr (JStr [c])"
| "getitem_0 (JObj kvs) = Inl (Exc KeyError (py ''0''))"
| "getitem_0 x =
     Inl (Exc TypeError (quoted (type_name x) @ py '' object is not subscriptable''))"

text \<open>
  \<^verbatim>\<open>s.lower()\<close>, code point by code point. \<open>A\<close> to \<open>Z\<close> become \<open>a\<close> to \<open>z\<close>. Of the
  code points beyond ASCII, the Kelvin sign becomes \<open>k\<close> and the capital I with dot
  above becomes \<open>i\<close> followed by a combining dot; Python sends every other one to code
  points beyond ASCII again, and they stay as they are here. So the result is a word of
  the letters \<open>q\<close>, \<open>u\<close>, \<open>i\<close>, \<open>t\<close> here exactly when it is one in Python, which
  is all that the comparison with \<^verbatim>\<open>quit\<close> reads.
\<close>

definition lower_cp :: "nat \<Rightarrow> pystr" where
  "lower_cp c =
     (if 65 \<le> c \<and> c \<le> 90 then [c + 32]
      else if c = 0x212A then [107]
      else if c = 0x130 then [105, 0x307]
      else [c])"

definition lower :: "pystr \<Rightarrow> pystr" where
  "lower s = concat (map lower_cp s)"

text \<open>\<^verbatim>\<open>s.strip()\<close> removes the whitespace at both ends; whitespace is what
  \<^verbatim>\<open>str.isspace\<close> accepts.\<close>

definition isspace :: "nat \<Rightarrow> bool" where
  "isspace c \<longleftrightarrow>
     (9 \<le> c \<and> c \<le> 13) \<or> (28 \<le> c \<and> c \<le> 32) \<or> c = 0x85 \<or> c = 0xA0 \<or> c = 0x1680
     \<or> (0x2000 \<le> c \<and> c \<le> 0x200A) \<or> c = 0x2028 \<or> c = 0x2029 \<or> c = 0x202F
     \<or> c = 0x205F \<or> c = 0x3000"

definition strip :: "pystr \<Rightarrow> pystr" where
  "strip s = rev (dropWhile isspace (rev (dropWhile isspace s)))"

subsection \<open>The world outside the program\<close>

text \<open>
  A \<^verbatim>\<open>requests.Response\<close>, as far as the code and \<^verbatim>\<open>raise_for_status\<close> read it.
\<close>

record response =
  status_code :: int
  reason :: pystr
  resp_url :: pystr
  content :: bytes

text \<open>
  The library and the network are parameters. \<open>session_get\<close> is
  \<^verbatim>\<open>self.session.get(url)\<close>: from the state of the session and the network it gives
  a response or raises, and leaves a new state. \<open>response_json\<close> is
  \<^verbatim>\<open>Response.json()\<close>: the decoded body, or the exception that leaves the call,
  of whatever class.
  \<open>py_str\<close> is \<^verbatim>\<open>str(x)\<close> on a decoded value that is not a \<^verbatim>\<open>str\<close>.
\<close>

record 'n world =
  session_get :: "'n \<Rightarrow> pystr \<Rightarrow> (py_exc + response) \<times> 'n"
  response_json :: "response \<Rightarrow> py_exc + json"
  py_str :: "json \<Rightarrow> pystr"

record 'n state =
  net :: 'n
  stdout :: "pystr list"

definition write_out :: "pystr \<Rightarrow> 'n state \<Rightarrow> 'n state" where
  "write_out s st = st\<lparr>stdout := stdout st @ [s]\<rparr>"

definition py_print :: "pystr \<Rightarrow> 'n state \<Rightarrow> 'n state" where
  \<comment> \<open>\<^verbatim>\<open>print(s)\<close>\<close>
  "py_print s st = write_out (s @ [10]) st"

definition raise_for_status :: "response \<Rightarrow> py_exc + unit" where
  "raise_for_status r =
     (if 400 \<le> status_code r \<and> status_code r < 500 then
        Inl (Exc HTTPError (str_int (status_code r) @ py '' Client Error: '' @ reason r
                            @ py '' for url: '' @ resp_url r))
      else if 500 \<le> status_code r \<and> status_code r < 600 then
        Inl (Exc HTTPError (str_int (status_code r) @ py '' Server Error: '' @ reason r
                            @ py '' for url: '' @ resp_url r))
      else Inr ())"

definition format_value :: "'n world \<Rightarrow> json \<Rightarrow> pystr" where
  \<comment> \<open>a value inside an f-string\<close>
  "format_value w v = (case v of JStr s \<Rightarrow> s | _ \<Rightarrow> py_str w v)"

subsection \<open>The class \<^verbatim>\<open>Search\<close>\<close>

definition BASE_URL :: pystr where
  "BASE_URL = py ''https://openlibrary.org/search.json''"

definition DEFAULT_FIELDS :: "pystr list" where
  "DEFAULT_FIELDS = [py ''title'', py ''author_name'']"

definition DEFAULT_LIMIT :: int where
  "DEFAULT_LIMIT = 1"

text \<open>\<^verbatim>\<open>_build_url\<close>. An argument left out is \<open>None\<close> (the arguments \<^verbatim>\<open>fields\<close> and \<^verbatim>\<open>limit\<close>
  are \<open>fields'\<close> and \<open>limit'\<close> here); \<^verbatim>\<open>fields or ...\<close> and
  \<^verbatim>\<open>limit or ...\<close> take the default for \<open>None\<close> and for every other falsy value.\<close>

definition build_url :: "pystr \<Rightarrow> pystr list option \<Rightarrow> int option \<Rightarrow> pystr" where
  "build_url search_term fields' limit' =
     (let search_term_formatted = replace (py '' '') (py ''+'') search_term;
          fields_used = (case fields' of None \<Rightarrow> DEFAULT_FIELDS
                         | Some fs \<Rightarrow> if fs = [] then DEFAULT_FIELDS else fs);
          limit_used = (case limit' of None \<Rightarrow> DEFAULT_LIMIT
                        | Some n \<Rightarrow> if n = 0 then DEFAULT_LIMIT else n);
          fields_formatted = join (py '','') fields_used
      in BASE_URL @ py ''?title='' @ search_term_formatted
         @ py ''&fields='' @ fields_formatted @ py ''&limit='' @ str_int limit_used)"

definition get_search_results ::
  "'n world \<Rightarrow> pystr \<Rightarrow> 'n state \<Rightarrow> (py_exc + bytes) \<times> 'n state" where
  "get_search_results w search_term st =
     (let url = build_url search_term None None;
          (got, n) = session_get w (net st) url;
          st1 = st\<lparr>net := n\<rparr>
      in case and_then got (\<lambda>response.
              and_then (raise_for_status response) (\<lambda>_. Inr (content response))) of
           Inr c \<Rightarrow> (Inr c, st1)
         | Inl (Exc cls msg) \<Rightarrow>
             if is_RequestException cls
             then (Inr [], py_print (py ''Error making request: '' @ msg) st1)
             else (Inl (Exc cls msg), st1))"

definition get_search_results_json ::
  "'n world \<Rightarrow> pystr \<Rightarrow> pystr list option \<Rightarrow> int option \<Rightarrow> 'n state
     \<Rightarrow> (py_exc + json) \<times> 'n state" where
  "get_search_results_json w search_term fields' limit' st =
     (let url = build_url search_term fields' limit';
          st0 = py_print (py ''Request URL: '' @ url) st;
          (got, n) = session_get w (net st0) url;
          st1 = st0\<lparr>net := n\<rparr>
      in case and_then got (\<lambda>response.
              and_then (raise_for_status response) (\<lambda>_. response_json w response)) of
           Inr v \<Rightarrow> (Inr v, st1)
         | Inl (Exc cls msg) \<Rightarrow>
             if is_RequestException cls
             then (Inr (JObj []), py_print (py ''Error making request: '' @ msg) st1)
             else (Inl (Exc cls msg), st1))"

text \<open>Lines 76 to 83 of the source: from the decoded response to the text shown.\<close>

definition first_result :: "'n world \<Rightarrow> json \<Rightarrow> py_exc + pystr" where
  "first_result w response =
     and_then (dict_get response (py ''docs'') JNull) (\<lambda>docs.
       if \<not> truthy docs then Inr (py ''No results found.'')
       else
         and_then (getitem_key response (py ''docs'')) (\<lambda>docs.
         and_then (getitem_0 docs) (\<lambda>book.
         and_then (dict_get book (py ''title'') (JStr (py ''Unknown Title''))) (\<lambda>title.
         and_then (dict_get book (py ''author_name'') (JArr [JStr (py ''Unknown Author'')]))
           (\<lambda>names.
         and_then (getitem_0 names) (\<lambda>author.
           Inr (py ''Title: '' @ format_value w title @ py ''\<newline>Author: ''
                @ format_value w author)))))))"

definition get_user_search_results ::
  "'n world \<Rightarrow> pystr \<Rightarrow> 'n state \<Rightarrow> (py_exc + pystr) \<times> 'n state" where
  "get_user_search_results w search_term st =
     (let (got, st1) = get_search_results_json w search_term None None st
      in case and_then got (first_result w) of
           Inr s \<Rightarrow> (Inr s, st1)
         | Inl (Exc cls msg) \<Rightarrow>
             (Inr (py ''An error occurred while processing your request.''),
              py_print (py ''Error processing results: '' @ msg) st1))"

subsection \<open>The interactive loop\<close>

datatype control = Break | Continue | Raise py_exc

definition prompt :: pystr where
  "prompt = py ''\<newline>Enter a book title (or '' @ quoted (py ''quit'') @ py '' to exit): ''"

text \<open>The body of \<^verbatim>\<open>while True\<close>, from the line that \<^verbatim>\<open>input\<close> has read.\<close>

definition loop_body :: "'n world \<Rightarrow> pystr \<Rightarrow> 'n state \<Rightarrow> control \<times> 'n state" where
  "loop_body w search_term st =
     (if lower search_term = py ''quit'' then (Break, st)
      else if strip search_term = [] then
        (Continue, py_print (py ''Please enter a valid book title.'') st)
      else
        (let (got, st1) = get_user_search_results w search_term st
         in case got of
              Inl e \<Rightarrow> (Raise e, st1)
            | Inr result \<Rightarrow>
                (Continue, py_print result (py_print (py ''\<newline>Search Result:'') st1))))"

text \<open>
  The loop, over the lines that standard input still holds. \<^verbatim>\<open>input\<close> writes the
  prompt and reads a line; at the end of the input it raises \<^verbatim>\<open>EOFError\<close>, which
  nothing catches.
\<close>

fun main_loop :: "'n world \<Rightarrow> pystr list \<Rightarrow> 'n state \<Rightarrow> (py_exc + unit) \<times> 'n state" where
  "main_loop w [] st = (Inl (Exc EOFError (py ''EOF when reading a line'')), write_out prompt st)"
| "main_loop w (search_term # rest) st =
     (case loop_body w search_term (write_out prompt st) of
        (Break, st1) \<Rightarrow> (Inr (), st1)
      | (Continue, st1) \<Rightarrow> main_loop w rest st1
      | (Raise e, st1) \<Rightarrow> (Inl e, st1))"

definition main :: "'n world \<Rightarrow> pystr list \<Rightarrow> 'n state \<Rightarrow> (py_exc + unit) \<times> 'n state" where
  "main w lines st =
     main_loop w lines
       (py_print (py ''-----------------------'') (py_print (py ''Open Library Book Search'') st))"

subsection \<open>Outcomes of a request\<close>

text \<open>
  A request fails at the transport when \<^verbatim>\<open>session.get\<close> raises a
  \<^verbatim>\<open>RequestException\<close> (a connection error, a timeout) or when the status of the
  response makes \<^verbatim>\<open>raise_for_status\<close> raise.
\<close>

definition transport_fails :: "py_exc + response \<Rightarrow> bool" where
  "transport_fails got =
     (case got of
        Inl (Exc cls msg) \<Rightarrow> is_RequestException cls
      | Inr r \<Rightarrow> 400 \<le> status_code r \<and> status_code r < 600)"

text \<open>An outcome that is a value or a \<^verbatim>\<open>RequestException\<close>: what
  \<^verbatim>\<open>except requests.exceptions.RequestException\<close> lets through or catches.\<close>

definition raises_only_RequestException :: "py_exc + 'a \<Rightarrow> bool" where
  "raises_only_RequestException got =
     (case got of Inl (Exc cls msg) \<Rightarrow> is_RequestException cls | Inr r \<Rightarrow> True)"

subsection \<open>Worlds to run the program in\<close>

text \<open>A world in which every request has the outcome \<open>got\<close> and
  \<^verbatim>\<open>Response.json()\<close> the outcome \<open>decoded\<close>; the session has no state of its
  own.\<close>

definition example_str :: "json \<Rightarrow> pystr" where
  "example_str v =
     (case v of
        JNull \<Rightarrow> py ''None''
      | JBool b \<Rightarrow> if b then py ''True'' else py ''False''
      | JInt i \<Rightarrow> str_int i
      | _ \<Rightarrow> [])"

definition world_of :: "py_exc + response \<Rightarrow> py_exc + json \<Rightarrow> unit world" where
  "world_of got decoded =
     \<lparr>session_get = (\<lambda>n url. (got, n)), response_json = (\<lambda>r. decoded), py_str = example_str\<rparr>"

definition status :: "int \<Rightarrow> response" where
  "status code = \<lparr>status_code = code, reason = [], resp_url = [], content = []\<rparr>"

text \<open>A world in which every request is answered with status 200 and a body that
  decodes to \<open>v\<close>.\<close>

definition ok :: "json \<Rightarrow> unit world" where
  "ok v = world_of (Inr (status 200)) (Inr v)"

text \<open>
  Two answers with status 200 on which the decoder of Python gives up before it finds
  out whether the body is JSON: a thousand opening brackets, which are not JSON, and an
  integer of five thousand digits, which is.
\<close>

definition answered :: "bytes \<Rightarrow> response" where
  "answered body = \<lparr>status_code = 200, reason = py ''OK'', resp_url = [], content = body\<rparr>"

definition too_deep :: "unit world" where
  "too_deep =
     world_of (Inr (answered (replicate 1000 CHR ''['')))
       (Inl (Exc RecursionError
         (py ''maximum recursion depth exceeded while decoding a JSON array from a unicode string'')))"

definition too_long :: "unit world" where
  "too_long =
     world_of (Inr (answered (replicate 5000 CHR ''7'')))
       (Inl (Exc ValueError
         (py ''Exceeds the limit (4300 digits) for integer string conversion: value has 5000 digits; use sys.set_int_max_str_digits() to increase the limit'')))"

definition st0 :: "unit state" where
  "st0 = \<lparr>net = (), stdout = []\<rparr>"

definition unreachable :: "py_exc + response" where
  "unreachable = Inl (Exc ConnectionError (py ''Max retries exceeded''))"

definition dune :: json where
  "dune = JObj [(py ''docs'',
     JArr [JObj [(py ''title'', JStr (py ''Dune'')),
                 (py ''author_name'', JArr [JStr (py ''Frank Herbert''), JStr (py ''Other'')])]])]"

subsection \<open>The words of the specification\<close>

text \<open>
  The interactive loop is specified by two notions of its own. A line equals
  \<^verbatim>\<open>quit\<close> compared case-insensitively when it is one of the sixteen spellings of
  the word in upper and lower case. A line is whitespace-only when each of its
  characters is whitespace (the empty line is).
\<close>

definition quit_ignoring_case :: "pystr \<Rightarrow> bool" where
  "quit_ignoring_case s \<longleftrightarrow>
     s \<in> set [[q, u, i, t]. q \<leftarrow> py ''qQ'', u \<leftarrow> py ''uU'', i \<leftarrow> py ''iI'', t \<leftarrow> py ''tT'']"

definition whitespace_only :: "pystr \<Rightarrow> bool" where
  "whitespace_only s \<longleftrightarrow> (\<forall>c\<in>set s. isspace c)"

section \<open>Properties\<close>

subsection \<open>Facts about the built-in operations\<close>

lemma py_append: "py (a @ b) = py a @ py b" by (simp add: py_def)

lemma replace_space:
  "replace (py '' '') (py ''+'') t
     = map (\<lambda>c. if c = of_char CHR '' '' then of_char CHR ''+'' else c) t"
  by (induction t) (simp_all add: py_def replace.simps[of _ _ "_ # _"] replace.simps[of _ _ "[]"])

lemma url_prefix: "BASE_URL @ py ''?title='' @ s = py ''https://openlibrary.org/search.json?title='' @ s"
  by (simp add: BASE_URL_def py_def)

lemma join_DEFAULT_FIELDS: "join (py '','') DEFAULT_FIELDS = py ''title,author_name''"
  by (simp add: DEFAULT_FIELDS_def py_def)

lemma str_nat_digit: "n < 10 \<Longrightarrow> str_nat n = [48 + n]"
  by (simp add: str_nat.simps)

lemma str_int_1: "str_int 1 = py ''1''"
  by (simp add: str_int_def str_nat_digit py_def)

lemma all_dropWhile: "(\<forall>x\<in>set (dropWhile P xs). P x) \<longleftrightarrow> (\<forall>x\<in>set xs. P x)"
proof
  assume a: "\<forall>x\<in>set (dropWhile P xs). P x"
  have "dropWhile P xs = []"
  proof (rule ccontr)
    assume n: "dropWhile P xs \<noteq> []"
    then have "\<not> P (hd (dropWhile P xs))" by (rule hd_dropWhile)
    moreover from n have "hd (dropWhile P xs) \<in> set (dropWhile P xs)" by simp
    ultimately show False using a by blast
  qed
  then show "\<forall>x\<in>set xs. P x" by simp
next
  assume "\<forall>x\<in>set xs. P x"
  then show "\<forall>x\<in>set (dropWhile P xs). P x" by (blast dest: set_dropWhileD)
qed

lemma strip_empty: "strip s = [] \<longleftrightarrow> (\<forall>c\<in>set s. isspace c)"
  by (simp add: strip_def all_dropWhile)

subsection \<open>Facts about the tests of the loop\<close>

lemma lower_Cons: "lower (c # s) = lower_cp c @ lower s" by (simp add: lower_def)
lemma lower_cp_step:
  assumes "lower_cp a @ r = x # ys" and "ys = [] \<or> hd ys \<noteq> 775"
  shows "lower_cp a = [x] \<and> r = ys"
  using assms by (auto simp: lower_cp_def split: if_splits)

lemma lower_empty: "lower s = [] \<longleftrightarrow> s = []"
  by (cases s) (auto simp: lower_def lower_cp_def)

lemma lower_cp_q: "lower_cp c = [113] \<longleftrightarrow> c = 113 \<or> c = 81" by (auto simp: lower_cp_def)
lemma lower_cp_u: "lower_cp c = [117] \<longleftrightarrow> c = 117 \<or> c = 85" by (auto simp: lower_cp_def)
lemma lower_cp_i: "lower_cp c = [105] \<longleftrightarrow> c = 105 \<or> c = 73" by (auto simp: lower_cp_def)
lemma lower_cp_t: "lower_cp c = [116] \<longleftrightarrow> c = 116 \<or> c = 84" by (auto simp: lower_cp_def)

lemma py_quit: "py ''quit'' = [113, 117, 105, 116]" by (simp add: py_def)

lemma lower_quit:
  "lower s = py ''quit'' \<longleftrightarrow>
     (\<exists>q u i t. s = [q, u, i, t] \<and> (q = 113 \<or> q = 81) \<and> (u = 117 \<or> u = 85)
        \<and> (i = 105 \<or> i = 73) \<and> (t = 116 \<or> t = 84))"
proof
  assume l: "lower s = py ''quit''"
  then obtain q s1 where s: "s = q # s1" by (cases s) (auto simp: lower_def py_quit)
  with l have "lower_cp q @ lower s1 = 113 # [117, 105, 116]" by (simp add: lower_Cons py_quit)
  then have q: "lower_cp q = [113]" and l1: "lower s1 = [117, 105, 116]"
    using lower_cp_step[of q "lower s1" 113 "[117, 105, 116]"] by simp_all
  from l1 obtain u s2 where s1: "s1 = u # s2" by (cases s1) (auto simp: lower_def)
  with l1 have "lower_cp u @ lower s2 = 117 # [105, 116]" by (simp add: lower_Cons)
  then have u: "lower_cp u = [117]" and l2: "lower s2 = [105, 116]"
    using lower_cp_step[of u "lower s2" 117 "[105, 116]"] by simp_all
  from l2 obtain i s3 where s2: "s2 = i # s3" by (cases s2) (auto simp: lower_def)
  with l2 have "lower_cp i @ lower s3 = 105 # [116]" by (simp add: lower_Cons)
  then have i: "lower_cp i = [105]" and l3: "lower s3 = [116]"
    using lower_cp_step[of i "lower s3" 105 "[116]"] by simp_all
  from l3 obtain t s4 where s3: "s3 = t # s4" by (cases s3) (auto simp: lower_def)
  with l3 have "lower_cp t @ lower s4 = 116 # []" by (simp add: lower_Cons)
  then have t: "lower_cp t = [116]" and l4: "lower s4 = []"
    using lower_cp_step[of t "lower s4" 116 "[]"] by simp_all
  from l4 have "s4 = []" by (simp add: lower_empty)
  with s s1 s2 s3 q u i t show "\<exists>q u i t. s = [q, u, i, t] \<and> (q = 113 \<or> q = 81) \<and> (u = 117 \<or> u = 85)
        \<and> (i = 105 \<or> i = 73) \<and> (t = 116 \<or> t = 84)"
    by (simp add: lower_cp_q lower_cp_u lower_cp_i lower_cp_t)
next
  assume "\<exists>q u i t. s = [q, u, i, t] \<and> (q = 113 \<or> q = 81) \<and> (u = 117 \<or> u = 85)
        \<and> (i = 105 \<or> i = 73) \<and> (t = 116 \<or> t = 84)"
  then obtain q u i t where "s = [q, u, i, t]" "lower_cp q = [113]" "lower_cp u = [117]"
     "lower_cp i = [105]" "lower_cp t = [116]"
    by (auto simp: lower_cp_q lower_cp_u lower_cp_i lower_cp_t)
  then show "lower s = py ''quit''" by (simp add: lower_def py_quit)
qed

subsection \<open>Facts about the client\<close>

lemma net_py_print: "net (py_print s st) = net st"
  by (simp add: py_print_def write_out_def)

lemma raw_transport_fails:
  assumes "transport_fails (fst (session_get w (net st) (build_url t None None)))"
  shows "fst (get_search_results w t st) = Inr []"
  using assms
  by (auto simp: get_search_results_def transport_fails_def and_then_def raise_for_status_def
         Let_def split: prod.splits sum.splits py_exc.splits if_splits)

lemma json_transport_fails:
  assumes "transport_fails (fst (session_get w (net st) (build_url t fs lmt)))"
  shows "fst (get_search_results_json w t fs lmt st) = Inr (JObj [])"
  using assms
  by (auto simp: get_search_results_json_def transport_fails_def and_then_def
         raise_for_status_def net_py_print Let_def
         split: prod.splits sum.splits py_exc.splits if_splits)

lemma json_decode_fails:
  assumes "fst (session_get w (net st) (build_url t fs lmt)) = Inr r"
    and "raise_for_status r = Inr ()"
    and "response_json w r = Inl (Exc cls msg)"
    and "is_RequestException cls"
  shows "fst (get_search_results_json w t fs lmt st) = Inr (JObj [])"
  using assms
  by (auto simp: get_search_results_json_def and_then_def net_py_print Let_def
         split: prod.splits sum.splits py_exc.splits)

lemma json_decode_escapes:
  assumes "fst (session_get w (net st) (build_url t fs lmt)) = Inr r"
    and "raise_for_status r = Inr ()"
    and "response_json w r = Inl (Exc cls msg)"
    and "\<not> is_RequestException cls"
  shows "fst (get_search_results_json w t fs lmt st) = Inl (Exc cls msg)"
  using assms
  by (auto simp: get_search_results_json_def and_then_def net_py_print Let_def
         split: prod.splits sum.splits py_exc.splits)

lemma raise_for_status_class:
  "raise_for_status r = Inl (Exc cls msg) \<Longrightarrow> is_RequestException cls"
  by (auto simp: raise_for_status_def split: if_splits)

lemma raw_returns_iff:
  "(\<exists>c st'. get_search_results w t st = (Inr c, st'))
     \<longleftrightarrow> raises_only_RequestException (fst (session_get w (net st) (build_url t None None)))"
proof (cases "session_get w (net st) (build_url t None None)")
  case (Pair got n)
  show ?thesis
  proof (cases got)
    case (Inl e)
    with Pair show ?thesis
      by (cases e)
         (auto simp: get_search_results_def raises_only_RequestException_def and_then_def
            Let_def)
  next
    case (Inr r)
    show ?thesis
    proof (cases "raise_for_status r")
      case (Inl e)
      then have "is_RequestException (case e of Exc cls msg \<Rightarrow> cls)"
        by (cases e) (simp add: raise_for_status_class)
      with Pair Inr Inl show ?thesis
        by (cases e)
           (auto simp: get_search_results_def raises_only_RequestException_def and_then_def
              Let_def)
    next
      case (Inr u)
      with Pair \<open>got = Inr r\<close> show ?thesis
        by (simp add: get_search_results_def raises_only_RequestException_def and_then_def
              Let_def)
    qed
  qed
qed

lemma json_returns_iff:
  "(\<exists>v st'. get_search_results_json w t fs lmt st = (Inr v, st'))
     \<longleftrightarrow> raises_only_RequestException
           (and_then (fst (session_get w (net st) (build_url t fs lmt)))
              (\<lambda>r. and_then (raise_for_status r) (\<lambda>_. response_json w r)))"
proof (cases "session_get w (net st) (build_url t fs lmt)")
  case (Pair got n)
  show ?thesis
  proof (cases "and_then got (\<lambda>r. and_then (raise_for_status r) (\<lambda>_. response_json w r))")
    case (Inl e)
    with Pair show ?thesis
      by (cases e)
         (auto simp: get_search_results_json_def raises_only_RequestException_def
            net_py_print Let_def)
  next
    case (Inr v)
    with Pair show ?thesis
      by (simp add: get_search_results_json_def raises_only_RequestException_def
            net_py_print Let_def)
  qed
qed

lemma user_total: "\<exists>s st'. get_user_search_results w t st = (Inr s, st')"
  by (auto simp: get_user_search_results_def split: prod.splits sum.splits py_exc.splits)

lemma user_of_json:
  assumes "fst (get_search_results_json w t None None st) = Inr v"
  shows "fst (get_user_search_results w t st) =
           (case first_result w v of
              Inr s \<Rightarrow> Inr s
            | Inl e \<Rightarrow> Inr (py ''An error occurred while processing your request.''))"
  using assms
  by (auto simp: get_user_search_results_def and_then_def
         split: prod.splits sum.splits py_exc.splits)

lemma first_result_no_docs:
  assumes "map_of kvs (py ''docs'') = None \<or> map_of kvs (py ''docs'') = Some (JArr [])"
  shows "first_result w (JObj kvs) = Inr (py ''No results found.'')"
  using assms by (auto simp: first_result_def and_then_def)

lemma first_result_book:
  assumes "map_of kvs (py ''docs'') = Some (JArr (JObj book # others))"
  shows "first_result w (JObj kvs) =
           and_then (getitem_0 (case map_of book (py ''author_name'') of
                                  None \<Rightarrow> JArr [JStr (py ''Unknown Author'')] | Some v \<Rightarrow> v))
             (\<lambda>author. Inr (py ''Title: ''
                @ format_value w (case map_of book (py ''title'') of
                                    None \<Rightarrow> JStr (py ''Unknown Title'') | Some v \<Rightarrow> v)
                @ py ''\<newline>Author: '' @ format_value w author))"
  using assms by (simp add: first_result_def and_then_def)

subsection \<open>Facts about the loop body\<close>

lemma user_of_json_state:
  "get_user_search_results w t st =
     (case and_then (fst (get_search_results_json w t None None st)) (first_result w) of
        Inr s \<Rightarrow> (Inr s, snd (get_search_results_json w t None None st))
      | Inl (Exc cls msg) \<Rightarrow>
          (Inr (py ''An error occurred while processing your request.''),
           py_print (py ''Error processing results: '' @ msg)
             (snd (get_search_results_json w t None None st))))"
  by (cases "get_search_results_json w t None None st")
     (simp add: get_user_search_results_def split: sum.splits py_exc.splits)

lemma lower_quit_ignoring_case: "lower s = py ''quit'' \<longleftrightarrow> quit_ignoring_case s"
  unfolding lower_quit quit_ignoring_case_def by (auto simp: py_def)

lemma whitespace_not_quit: "whitespace_only s \<Longrightarrow> \<not> quit_ignoring_case s"
  by (auto simp: whitespace_only_def quit_ignoring_case_def py_def isspace_def)

lemma loop_body_quit: "quit_ignoring_case s \<Longrightarrow> loop_body w s st = (Break, st)"
  by (simp add: loop_body_def lower_quit_ignoring_case)

lemma loop_body_blank:
  "whitespace_only s \<Longrightarrow>
     loop_body w s st = (Continue, py_print (py ''Please enter a valid book title.'') st)"
  using whitespace_not_quit[of s]
  by (simp add: loop_body_def lower_quit_ignoring_case strip_empty whitespace_only_def)

lemma loop_body_other:
  "\<not> quit_ignoring_case s \<Longrightarrow> \<exists>st1. loop_body w s st = (Continue, st1)"
  using user_total[of w s st]
  by (auto simp: loop_body_def lower_quit_ignoring_case)

subsection \<open>The URL\<close>

text \<open>
  Claim C3. \<^verbatim>\<open>_build_url\<close> is a function of its arguments alone, and the URL is
  exactly \<^verbatim>\<open>https://openlibrary.org/search.json?title=T&fields=F&limit=N\<close>: \<open>T\<close>
  is the title, character by character, with every space replaced by \<open>+\<close> and every
  other character as it is; \<open>F\<close> is the fields in use joined by commas; \<open>N\<close> is the
  limit in use in decimal.
\<close>
theorem build_url_exact:
  "build_url title fs lmt =
     py ''https://openlibrary.org/search.json?title=''
     @ map (\<lambda>c. if c = of_char CHR '' '' then of_char CHR ''+'' else c) title
     @ py ''&fields=''
     @ join (py '','') (case fs of Some (f # others) \<Rightarrow> f # others | _ \<Rightarrow> [py ''title'', py ''author_name''])
     @ py ''&limit='' @ str_int (case lmt of Some n \<Rightarrow> if n = 0 then 1 else n | None \<Rightarrow> 1)"
  by (simp add: build_url_def replace_space url_prefix DEFAULT_FIELDS_def DEFAULT_LIMIT_def
        split: option.splits list.splits)

theorem build_url_exact_witness:
  "build_url (py ''war & peace'') (Some [py ''title'', py ''key'']) (Some 25)
     = py ''https://openlibrary.org/search.json?title=war+&+peace&fields=title,key&limit=25''"
  using build_url_exact[of "py ''war & peace''" "Some [py ''title'', py ''key'']" "Some 25"]
  by (simp add: py_def str_int_def str_nat.simps)

text \<open>
  Claim C7. Without the argument \<open>fields\<close> the URL has
  \<^verbatim>\<open>fields=title,author_name\<close>; without the argument \<open>limit\<close> it has
  \<^verbatim>\<open>limit=1\<close>.
\<close>
theorem build_url_defaults:
  "build_url title None lmt =
     BASE_URL @ py ''?title='' @ replace (py '' '') (py ''+'') title
     @ py ''&fields=title,author_name&limit=''
     @ str_int (case lmt of Some n \<Rightarrow> if n = 0 then 1 else n | None \<Rightarrow> 1)
   \<and> build_url title fs None =
     BASE_URL @ py ''?title='' @ replace (py '' '') (py ''+'') title
     @ py ''&fields=''
     @ join (py '','') (case fs of Some (f # others) \<Rightarrow> f # others | _ \<Rightarrow> DEFAULT_FIELDS)
     @ py ''&limit=1''"
  by (simp add: build_url_def join_DEFAULT_FIELDS DEFAULT_LIMIT_def str_int_1 py_append[symmetric]
        split: option.splits list.splits)

theorem build_url_defaults_witness:
  "build_url (py ''the hobbit'') None None
     = py ''https://openlibrary.org/search.json?title=the+hobbit&fields=title,author_name&limit=1''"
  using build_url_defaults[of "py ''the hobbit''" None "None"]
  by (simp add: url_prefix replace_space str_int_1) (simp add: py_def)

text \<open>
  Claim C10. \<^verbatim>\<open>_build_url\<close> does not reject an empty list of fields or a limit
  of 0: each is falsy and is replaced by its default, so that the URL has
  \<^verbatim>\<open>fields=title,author_name\<close> for the empty list and \<^verbatim>\<open>limit=1\<close> for 0, and
  is the URL built without that argument.
\<close>
theorem build_url_falsy_arguments:
  "build_url title (Some []) lmt = build_url title None lmt
   \<and> build_url title fs (Some 0) = build_url title fs None
   \<and> build_url title (Some []) lmt =
       py ''https://openlibrary.org/search.json?title=''
       @ map (\<lambda>c. if c = of_char CHR '' '' then of_char CHR ''+'' else c) title
       @ py ''&fields=title,author_name&limit=''
       @ str_int (case lmt of Some n \<Rightarrow> if n = 0 then 1 else n | None \<Rightarrow> 1)
   \<and> build_url title fs (Some 0) =
       py ''https://openlibrary.org/search.json?title=''
       @ map (\<lambda>c. if c = of_char CHR '' '' then of_char CHR ''+'' else c) title
       @ py ''&fields=''
       @ join (py '','')
           (case fs of Some (f # others) \<Rightarrow> f # others | _ \<Rightarrow> [py ''title'', py ''author_name''])
       @ py ''&limit=1''
   \<and> build_url title (Some []) (Some 0) =
       py ''https://openlibrary.org/search.json?title=''
       @ map (\<lambda>c. if c = of_char CHR '' '' then of_char CHR ''+'' else c) title
       @ py ''&fields=title,author_name&limit=1''"
proof (intro conjI)
  show "build_url title (Some []) lmt = build_url title None lmt"
    by (simp add: build_url_def)
  show "build_url title fs (Some 0) = build_url title fs None"
    by (simp add: build_url_def)
  show "build_url title (Some []) lmt =
       py ''https://openlibrary.org/search.json?title=''
       @ map (\<lambda>c. if c = of_char CHR '' '' then of_char CHR ''+'' else c) title
       @ py ''&fields=title,author_name&limit=''
       @ str_int (case lmt of Some n \<Rightarrow> if n = 0 then 1 else n | None \<Rightarrow> 1)"
    by (simp add: build_url_def replace_space url_prefix join_DEFAULT_FIELDS DEFAULT_LIMIT_def
          py_append[symmetric] split: option.splits)
  show "build_url title fs (Some 0) =
       py ''https://openlibrary.org/search.json?title=''
       @ map (\<lambda>c. if c = of_char CHR '' '' then of_char CHR ''+'' else c) title
       @ py ''&fields=''
       @ join (py '','')
           (case fs of Some (f # others) \<Rightarrow> f # others | _ \<Rightarrow> [py ''title'', py ''author_name''])
       @ py ''&limit=1''"
    by (simp add: build_url_def replace_space url_prefix DEFAULT_FIELDS_def DEFAULT_LIMIT_def
          str_int_1 py_append[symmetric] split: option.splits list.splits)
  show "build_url title (Some []) (Some 0) =
       py ''https://openlibrary.org/search.json?title=''
       @ map (\<lambda>c. if c = of_char CHR '' '' then of_char CHR ''+'' else c) title
       @ py ''&fields=title,author_name&limit=1''"
    by (simp add: build_url_def replace_space url_prefix join_DEFAULT_FIELDS DEFAULT_LIMIT_def
          str_int_1 py_append[symmetric])
qed

theorem build_url_falsy_arguments_witness:
  "build_url (py ''dune'') (Some []) None = build_url (py ''dune'') None None
   \<and> build_url (py ''dune'') None (Some 0) = build_url (py ''dune'') None None
   \<and> build_url (py ''dune'') (Some []) (Some 0)
       = py ''https://openlibrary.org/search.json?title=dune&fields=title,author_name&limit=1''"
proof -
  note all = build_url_falsy_arguments[of "py ''dune''" None None]
  from all have a: "build_url (py ''dune'') (Some []) None = build_url (py ''dune'') None None"
    by (rule conjunct1)
  from all have b: "build_url (py ''dune'') None (Some 0) = build_url (py ''dune'') None None"
    by blast
  from all have c: "build_url (py ''dune'') (Some []) (Some 0) =
       py ''https://openlibrary.org/search.json?title=''
       @ map (\<lambda>c. if c = of_char CHR '' '' then of_char CHR ''+'' else c) (py ''dune'')
       @ py ''&fields=title,author_name&limit=1''"
    by blast
  have d: "py ''https://openlibrary.org/search.json?title=''
       @ map (\<lambda>c. if c = of_char CHR '' '' then of_char CHR ''+'' else c) (py ''dune'')
       @ py ''&fields=title,author_name&limit=1''
     = py ''https://openlibrary.org/search.json?title=dune&fields=title,author_name&limit=1''"
    by (simp add: py_def)
  from a b c d show ?thesis by simp
qed

subsection \<open>Failed requests\<close>

lemma stdout_py_print: "stdout (py_print s st) = stdout st @ [s @ [10]]"
  by (simp add: py_print_def write_out_def)

lemma json_decode_fails_stdout:
  assumes "fst (session_get w (net st) (build_url t fs lmt)) = Inr r"
    and "raise_for_status r = Inr ()"
    and "response_json w r = Inl (Exc cls msg)"
    and "is_RequestException cls"
  shows "stdout (snd (get_search_results_json w t fs lmt st)) =
           stdout st @ [py ''Request URL: '' @ build_url t fs lmt @ [10],
                        py ''Error making request: '' @ msg @ [10]]"
  using assms
  by (auto simp: get_search_results_json_def and_then_def net_py_print
         stdout_py_print Let_def split: prod.splits sum.splits py_exc.splits)

text \<open>
  Claim C2. When the transport fails (the session raises a connection error, a timeout or
  another \<^verbatim>\<open>RequestException\<close>, or the status makes \<^verbatim>\<open>raise_for_status\<close>
  raise), \<^verbatim>\<open>get_search_results\<close> returns the empty bytes and
  \<^verbatim>\<open>get_search_results_json\<close> returns the empty dict; neither raises.
\<close>
theorem transport_failure_degrades:
  "(transport_fails (fst (session_get w (net st) (build_url title None None)))
      \<longrightarrow> fst (get_search_results w title st) = Inr [])
   \<and> (transport_fails (fst (session_get w (net st) (build_url title fs lmt)))
      \<longrightarrow> fst (get_search_results_json w title fs lmt st) = Inr (JObj []))"
  by (simp add: raw_transport_fails json_transport_fails)

theorem transport_failure_degrades_witness:
  "transport_fails (fst (session_get (world_of unreachable (Inr dune)) (net st0)
      (build_url (py ''dune'') None None)))
   \<and> fst (get_search_results (world_of unreachable (Inr dune)) (py ''dune'') st0) = Inr []
   \<and> transport_fails (fst (session_get (world_of (Inr (status 404)) (Inr dune)) (net st0)
      (build_url (py ''dune'') None (Some 3))))
   \<and> fst (get_search_results_json (world_of (Inr (status 404)) (Inr dune)) (py ''dune'') None
        (Some 3) st0) = Inr (JObj [])"
proof -
  have a: "transport_fails (fst (session_get (world_of unreachable (Inr dune)) (net st0)
      (build_url (py ''dune'') None None)))"
    by (simp add: world_of_def unreachable_def transport_fails_def)
  have b: "transport_fails (fst (session_get (world_of (Inr (status 404)) (Inr dune)) (net st0)
      (build_url (py ''dune'') None (Some 3))))"
    by (simp add: world_of_def status_def transport_fails_def)
  show ?thesis
    using a b
      transport_failure_degrades[of "world_of unreachable (Inr dune)" st0 "py ''dune''" None None]
      transport_failure_degrades[of "world_of (Inr (status 404)) (Inr dune)" st0 "py ''dune''"
        None "Some 3"]
    by simp
qed

lemma raise_for_status_answered: "raise_for_status (answered body) = Inr ()"
  by (simp add: raise_for_status_def answered_def)

text \<open>
  Claim C6, corrected. When the response arrives with a status that does not raise and
  \<^verbatim>\<open>Response.json()\<close> raises, what happens depends on the class of the exception.
  A \<^verbatim>\<open>RequestException\<close>, which is what a body that the decoder rejects as
  malformed gives (\<^verbatim>\<open>requests.exceptions.JSONDecodeError\<close>, requests 2.27 or
  later), takes the handler of a failed request: \<^verbatim>\<open>Error making request:\<close> is
  printed with the message and the empty dict is returned, for every title, fields and
  limit. An exception of any other class is not caught and leaves
  \<^verbatim>\<open>get_search_results_json\<close>.
\<close>
theorem decode_failure_degrades_or_escapes:
  assumes "fst (session_get w (net st) (build_url title fs lmt)) = Inr r"
    and "raise_for_status r = Inr ()"
    and "response_json w r = Inl (Exc cls msg)"
  shows "(is_RequestException cls \<longrightarrow>
            fst (get_search_results_json w title fs lmt st) = Inr (JObj [])
            \<and> stdout (snd (get_search_results_json w title fs lmt st)) =
                stdout st @ [py ''Request URL: '' @ build_url title fs lmt @ [10],
                             py ''Error making request: '' @ msg @ [10]])
         \<and> (\<not> is_RequestException cls \<longrightarrow>
            fst (get_search_results_json w title fs lmt st) = Inl (Exc cls msg))"
  using assms by (simp add: json_decode_fails json_decode_fails_stdout json_decode_escapes)

theorem decode_failure_degrades_or_escapes_witness:
  "is_RequestException JSONDecodeError
   \<and> fst (get_search_results_json
          (world_of (Inr (status 200)) (Inl (Exc JSONDecodeError (py ''Expecting value''))))
          (py ''dune'') None None st0) = Inr (JObj [])
   \<and> \<not> is_RequestException ValueError
   \<and> fst (get_search_results_json too_long (py ''dune'') (Some [py ''key'']) (Some 5) st0)
       = Inl (Exc ValueError
               (py ''Exceeds the limit (4300 digits) for integer string conversion: value has 5000 digits; use sys.set_int_max_str_digits() to increase the limit''))"
proof -
  have a: "fst (session_get
              (world_of (Inr (status 200)) (Inl (Exc JSONDecodeError (py ''Expecting value''))))
              (net st0) (build_url (py ''dune'') None None)) = Inr (status 200)"
    by (simp add: world_of_def)
  have b: "raise_for_status (status 200) = Inr ()"
    by (simp add: raise_for_status_def status_def)
  have c: "response_json
             (world_of (Inr (status 200)) (Inl (Exc JSONDecodeError (py ''Expecting value''))))
             (status 200) = Inl (Exc JSONDecodeError (py ''Expecting value''))"
    by (simp add: world_of_def)
  have d: "fst (session_get too_long (net st0)
              (build_url (py ''dune'') (Some [py ''key'']) (Some 5)))
            = Inr (answered (replicate 5000 CHR ''7''))"
    by (simp add: too_long_def world_of_def)
  have e: "response_json too_long (answered (replicate 5000 CHR ''7''))
            = Inl (Exc ValueError
                    (py ''Exceeds the limit (4300 digits) for integer string conversion: value has 5000 digits; use sys.set_int_max_str_digits() to increase the limit''))"
    by (simp add: too_long_def world_of_def)
  show ?thesis
    using decode_failure_degrades_or_escapes[OF a b c]
      decode_failure_degrades_or_escapes[OF d raise_for_status_answered e]
    by simp
qed

text \<open>
  As first stated, for every body that is not well-formed JSON, the claim fails: on a
  body of a thousand opening brackets the decoder raises \<^verbatim>\<open>RecursionError\<close>, which
  \<^verbatim>\<open>Response.json()\<close> passes on and line 61 does not catch.
\<close>
theorem decode_failure_degrades_counterexample:
  "fst (get_search_results_json too_deep (py ''dune'') None None st0)
     = Inl (Exc RecursionError
         (py ''maximum recursion depth exceeded while decoding a JSON array from a unicode string''))"
proof -
  have a: "fst (session_get too_deep (net st0) (build_url (py ''dune'') None None))
            = Inr (answered (replicate 1000 CHR ''[''))"
    by (simp add: too_deep_def world_of_def)
  have b: "response_json too_deep (answered (replicate 1000 CHR ''[''))
            = Inl (Exc RecursionError
         (py ''maximum recursion depth exceeded while decoding a JSON array from a unicode string''))"
    by (simp add: too_deep_def world_of_def)
  show ?thesis
    by (rule json_decode_escapes[OF a raise_for_status_answered b]) simp
qed

subsection \<open>No exception leaves an operation\<close>

text \<open>
  Claim C1, corrected. As long as every \<^verbatim>\<open>print\<close> succeeds:
  \<^verbatim>\<open>get_user_search_results\<close> returns a value for every title, whatever the
  session and the decoder do, and the value is the generic error string whenever
  fetching or extracting raised. \<^verbatim>\<open>get_search_results\<close> and
  \<^verbatim>\<open>get_search_results_json\<close> catch \<^verbatim>\<open>RequestException\<close> and nothing else:
  the first returns a value exactly when \<^verbatim>\<open>session.get\<close> raises nothing else, the
  second exactly when \<^verbatim>\<open>session.get\<close> and \<^verbatim>\<open>Response.json()\<close> raise nothing
  else; an exception of another class leaves them.
\<close>
theorem operations_return_unless_uncaught:
  "(\<exists>s st'. get_user_search_results w title st = (Inr s, st'))
   \<and> (and_then (fst (get_search_results_json w title None None st)) (first_result w) = Inl e
      \<longrightarrow> fst (get_user_search_results w title st)
            = Inr (py ''An error occurred while processing your request.''))
   \<and> ((\<exists>c st'. get_search_results w title st = (Inr c, st'))
      \<longleftrightarrow> raises_only_RequestException
            (fst (session_get w (net st) (build_url title None None))))
   \<and> ((\<exists>v st'. get_search_results_json w title fs lmt st = (Inr v, st'))
      \<longleftrightarrow> raises_only_RequestException
            (and_then (fst (session_get w (net st) (build_url title fs lmt)))
               (\<lambda>r. and_then (raise_for_status r) (\<lambda>_. response_json w r))))"
proof (intro conjI impI)
  assume "and_then (fst (get_search_results_json w title None None st)) (first_result w) = Inl e"
  then show "fst (get_user_search_results w title st)
            = Inr (py ''An error occurred while processing your request.'')"
    by (cases e) (simp add: user_of_json_state)
qed (simp_all only: raw_returns_iff json_returns_iff user_total)

theorem operations_return_unless_uncaught_witness:
  "raises_only_RequestException (fst (session_get (world_of unreachable (Inr (JArr []))) (net st0)
      (build_url (py ''dune'') None None)))
   \<and> (\<exists>c st'. get_search_results (world_of unreachable (Inr (JArr []))) (py ''dune'') st0
                = (Inr c, st'))
   \<and> (\<exists>v st'. get_search_results_json (world_of unreachable (Inr (JArr []))) (py ''dune'')
                  None None st0 = (Inr v, st'))
   \<and> and_then (fst (get_search_results_json (world_of (Inr (status 200)) (Inr (JArr [])))
                     (py ''dune'') None None st0))
        (first_result (world_of (Inr (status 200)) (Inr (JArr []))))
       = Inl (Exc AttributeError
               (quoted (py ''list'') @ py '' object has no attribute '' @ quoted (py ''get'')))
   \<and> fst (get_user_search_results (world_of (Inr (status 200)) (Inr (JArr []))) (py ''dune'') st0)
       = Inr (py ''An error occurred while processing your request.'')"
proof -
  have a: "raises_only_RequestException (fst (session_get (world_of unreachable (Inr (JArr [])))
      (net st0) (build_url (py ''dune'') None None)))"
    by (simp add: world_of_def unreachable_def raises_only_RequestException_def)
  have b: "raises_only_RequestException
      (and_then (fst (session_get (world_of unreachable (Inr (JArr []))) (net st0)
                   (build_url (py ''dune'') None None)))
         (\<lambda>r. and_then (raise_for_status r)
            (\<lambda>_. response_json (world_of unreachable (Inr (JArr []))) r)))"
    by (simp add: world_of_def unreachable_def raises_only_RequestException_def and_then_def)
  have c: "and_then (fst (get_search_results_json (world_of (Inr (status 200)) (Inr (JArr [])))
                     (py ''dune'') None None st0))
        (first_result (world_of (Inr (status 200)) (Inr (JArr []))))
       = Inl (Exc AttributeError
               (quoted (py ''list'') @ py '' object has no attribute '' @ quoted (py ''get'')))"
    by (simp add: get_search_results_json_def world_of_def status_def raise_for_status_def
          and_then_def first_result_def Let_def)
  show ?thesis
    using a b c
      operations_return_unless_uncaught[of "world_of unreachable (Inr (JArr []))" "py ''dune''"
        st0 _ None None]
      operations_return_unless_uncaught[of "world_of (Inr (status 200)) (Inr (JArr []))"
        "py ''dune''" st0
        "Exc AttributeError
           (quoted (py ''list'') @ py '' object has no attribute '' @ quoted (py ''get''))"
        None None]
    by simp
qed

text \<open>
  As first stated, for every operation, the claim fails: on a body that is one integer
  of five thousand digits the decoder raises \<^verbatim>\<open>ValueError\<close> (Python 3.11 and
  later), and the exception leaves \<^verbatim>\<open>get_search_results_json\<close>.
\<close>
theorem operations_total_counterexample:
  "fst (get_search_results_json too_long (py ''dune'') None None st0)
     = Inl (Exc ValueError
             (py ''Exceeds the limit (4300 digits) for integer string conversion: value has 5000 digits; use sys.set_int_max_str_digits() to increase the limit''))"
proof -
  have a: "fst (session_get too_long (net st0) (build_url (py ''dune'') None None))
            = Inr (answered (replicate 5000 CHR ''7''))"
    by (simp add: too_long_def world_of_def)
  have b: "response_json too_long (answered (replicate 5000 CHR ''7''))
            = Inl (Exc ValueError
                    (py ''Exceeds the limit (4300 digits) for integer string conversion: value has 5000 digits; use sys.set_int_max_str_digits() to increase the limit''))"
    by (simp add: too_long_def world_of_def)
  show ?thesis
    by (rule json_decode_escapes[OF a raise_for_status_answered b]) simp
qed

subsection \<open>The text shown to the user\<close>

lemma json_ok: "fst (get_search_results_json (ok v) t fs lmt st0) = Inr v"
  by (simp add: ok_def get_search_results_json_def world_of_def status_def raise_for_status_def
        and_then_def Let_def)

text \<open>
  Claim C4. When the decoded response has a non-empty \<open>docs\<close> list whose first element
  is a document, \<^verbatim>\<open>get_user_search_results\<close> returns
  \<^verbatim>\<open>Title: <title>\<close>, a newline and \<^verbatim>\<open>Author: <author>\<close>, from the first
  document only: the title is the field \<open>title\<close>, or \<^verbatim>\<open>Unknown Title\<close> when the
  field is absent; the author is the first element of \<open>author_name\<close>, or
  \<^verbatim>\<open>Unknown Author\<close> when the field is absent; later authors and later documents
  are ignored.
\<close>
theorem first_document_is_formatted:
  assumes "fst (get_search_results_json w t None None st) = Inr (JObj kvs)"
    and "map_of kvs (py ''docs'') = Some (JArr (JObj book # others))"
    and "title = (case map_of book (py ''title'') of
                    None \<Rightarrow> JStr (py ''Unknown Title'') | Some v \<Rightarrow> v)"
    and "(map_of book (py ''author_name'') = None \<and> author = JStr (py ''Unknown Author''))
         \<or> (\<exists>coauthors. map_of book (py ''author_name'') = Some (JArr (author # coauthors)))"
  shows "fst (get_user_search_results w t st) =
           Inr (py ''Title: '' @ format_value w title @ py ''\<newline>Author: ''
                @ format_value w author)"
  using assms(3,4)
  by (auto simp: user_of_json[OF assms(1)] first_result_book[OF assms(2)] and_then_def)

theorem first_document_is_formatted_witness:
  "fst (get_search_results_json (ok dune) (py ''dune'') None None st0) = Inr dune
   \<and> fst (get_user_search_results (ok dune) (py ''dune'') st0)
       = Inr (py ''Title: Dune\<newline>Author: Frank Herbert'')
   \<and> fst (get_user_search_results (ok (JObj [(py ''docs'', JArr [JObj []])])) (py ''dune'') st0)
       = Inr (py ''Title: Unknown Title\<newline>Author: Unknown Author'')"
proof -
  have a: "fst (get_search_results_json (ok dune) (py ''dune'') None None st0) = Inr dune"
    by (rule json_ok)
  have b: "fst (get_search_results_json (ok (JObj [(py ''docs'', JArr [JObj []])])) (py ''dune'')
             None None st0) = Inr (JObj [(py ''docs'', JArr [JObj []])])"
    by (rule json_ok)
  have c: "fst (get_user_search_results (ok dune) (py ''dune'') st0)
       = Inr (py ''Title: Dune\<newline>Author: Frank Herbert'')"
    using a first_document_is_formatted[where w = "ok dune" and t = "py ''dune''" and st = st0
        and kvs = "[(py ''docs'',
          JArr [JObj [(py ''title'', JStr (py ''Dune'')),
            (py ''author_name'', JArr [JStr (py ''Frank Herbert''), JStr (py ''Other'')])]])]"
        and book = "[(py ''title'', JStr (py ''Dune'')),
            (py ''author_name'', JArr [JStr (py ''Frank Herbert''), JStr (py ''Other'')])]"
        and others = "[]" and title = "JStr (py ''Dune'')"
        and author = "JStr (py ''Frank Herbert'')"]
    by (simp add: dune_def format_value_def py_def)
  have d: "fst (get_user_search_results (ok (JObj [(py ''docs'', JArr [JObj []])]))
         (py ''dune'') st0)
       = Inr (py ''Title: Unknown Title\<newline>Author: Unknown Author'')"
    using b first_document_is_formatted[where w = "ok (JObj [(py ''docs'', JArr [JObj []])])"
        and t = "py ''dune''" and st = st0 and kvs = "[(py ''docs'', JArr [JObj []])]"
        and book = "[]" and others = "[]" and title = "JStr (py ''Unknown Title'')"
        and author = "JStr (py ''Unknown Author'')"]
    by (simp add: format_value_def py_def)
  from a c d show ?thesis by simp
qed

text \<open>
  Claim C5. \<^verbatim>\<open>get_user_search_results\<close> returns exactly
  \<^verbatim>\<open>No results found.\<close> when \<open>docs\<close> is absent from the decoded response or is
  the empty list, and also when the request failed at the transport (which degrades to
  the empty dict): the returned string does not tell an empty result from a failed
  request.
\<close>
theorem no_results_for_empty_or_failed:
  "(fst (get_search_results_json w title None None st) = Inr (JObj kvs)
      \<and> (map_of kvs (py ''docs'') = None \<or> map_of kvs (py ''docs'') = Some (JArr []))
      \<longrightarrow> fst (get_user_search_results w title st) = Inr (py ''No results found.''))
   \<and> (transport_fails (fst (session_get w (net st) (build_url title None None)))
      \<longrightarrow> fst (get_user_search_results w title st) = Inr (py ''No results found.''))"
proof (intro conjI impI)
  assume a: "fst (get_search_results_json w title None None st) = Inr (JObj kvs)
      \<and> (map_of kvs (py ''docs'') = None \<or> map_of kvs (py ''docs'') = Some (JArr []))"
  then have "first_result w (JObj kvs) = Inr (py ''No results found.'')"
    by (simp add: first_result_no_docs)
  with a show "fst (get_user_search_results w title st) = Inr (py ''No results found.'')"
    by (simp add: user_of_json)
next
  assume "transport_fails (fst (session_get w (net st) (build_url title None None)))"
  then have j: "fst (get_search_results_json w title None None st) = Inr (JObj [])"
    by (rule json_transport_fails)
  have "first_result w (JObj []) = Inr (py ''No results found.'')"
    by (simp add: first_result_no_docs)
  then show "fst (get_user_search_results w title st) = Inr (py ''No results found.'')"
    by (simp add: user_of_json[OF j])
qed

theorem no_results_for_empty_or_failed_witness:
  "fst (get_search_results_json (ok (JObj [(py ''docs'', JArr [])])) (py ''zzzz'') None None st0)
     = Inr (JObj [(py ''docs'', JArr [])])
   \<and> map_of [(py ''docs'', JArr [])] (py ''docs'') = Some (JArr [])
   \<and> fst (get_user_search_results (ok (JObj [(py ''docs'', JArr [])])) (py ''zzzz'') st0)
       = Inr (py ''No results found.'')
   \<and> transport_fails (fst (session_get (world_of unreachable (Inr dune)) (net st0)
        (build_url (py ''dune'') None None)))
   \<and> fst (get_user_search_results (world_of unreachable (Inr dune)) (py ''dune'') st0)
       = Inr (py ''No results found.'')"
proof -
  have a: "fst (get_search_results_json (ok (JObj [(py ''docs'', JArr [])])) (py ''zzzz'') None
             None st0) = Inr (JObj [(py ''docs'', JArr [])])"
    by (rule json_ok)
  have b: "map_of [(py ''docs'', JArr [])] (py ''docs'') = Some (JArr [])"
    by simp
  have c: "transport_fails (fst (session_get (world_of unreachable (Inr dune)) (net st0)
        (build_url (py ''dune'') None None)))"
    by (simp add: world_of_def unreachable_def transport_fails_def)
  show ?thesis
    using a b c
      no_results_for_empty_or_failed[of "ok (JObj [(py ''docs'', JArr [])])" "py ''zzzz''" st0
        "[(py ''docs'', JArr [])]"]
      no_results_for_empty_or_failed[of "world_of unreachable (Inr dune)" "py ''dune''" st0]
    by simp
qed

text \<open>
  Claim C9. When the first document has the field \<open>author_name\<close> and it is the empty
  list, \<^verbatim>\<open>get_user_search_results\<close> returns the generic error string, having
  printed the \<^verbatim>\<open>IndexError\<close>; \<^verbatim>\<open>Unknown Author\<close> stands in for an absent
  field only.
\<close>
theorem empty_author_list_is_an_error:
  assumes "fst (get_search_results_json w t None None st) = Inr (JObj kvs)"
    and "map_of kvs (py ''docs'') = Some (JArr (JObj book # others))"
    and "map_of book (py ''author_name'') = Some (JArr [])"
  shows "get_user_search_results w t st =
           (Inr (py ''An error occurred while processing your request.''),
            py_print (py ''Error processing results: list index out of range'')
              (snd (get_search_results_json w t None None st)))"
  using assms(3)
  by (simp add: user_of_json_state assms(1) first_result_book[OF assms(2)] and_then_def)
     (simp add: py_def)

theorem empty_author_list_is_an_error_witness:
  "fst (get_user_search_results
          (ok (JObj [(py ''docs'',
             JArr [JObj [(py ''title'', JStr (py ''Beowulf'')), (py ''author_name'', JArr [])]])]))
          (py ''beowulf'') st0)
     = Inr (py ''An error occurred while processing your request.'')
   \<and> fst (get_user_search_results
          (ok (JObj [(py ''docs'', JArr [JObj [(py ''title'', JStr (py ''Beowulf''))]])]))
          (py ''beowulf'') st0)
     = Inr (py ''Title: Beowulf\<newline>Author: Unknown Author'')"
proof -
  have a: "fst (get_search_results_json
          (ok (JObj [(py ''docs'',
             JArr [JObj [(py ''title'', JStr (py ''Beowulf'')), (py ''author_name'', JArr [])]])]))
          (py ''beowulf'') None None st0)
     = Inr (JObj [(py ''docs'',
             JArr [JObj [(py ''title'', JStr (py ''Beowulf'')), (py ''author_name'', JArr [])]])])"
    by (rule json_ok)
  have b: "fst (get_user_search_results
          (ok (JObj [(py ''docs'',
             JArr [JObj [(py ''title'', JStr (py ''Beowulf'')), (py ''author_name'', JArr [])]])]))
          (py ''beowulf'') st0)
        = Inr (py ''An error occurred while processing your request.'')"
    using a empty_author_list_is_an_error[where w = "ok (JObj [(py ''docs'',
             JArr [JObj [(py ''title'', JStr (py ''Beowulf'')), (py ''author_name'', JArr [])]])])"
        and t = "py ''beowulf''" and st = st0
        and kvs = "[(py ''docs'',
             JArr [JObj [(py ''title'', JStr (py ''Beowulf'')), (py ''author_name'', JArr [])]])]"
        and book = "[(py ''title'', JStr (py ''Beowulf'')), (py ''author_name'', JArr [])]"
        and others = "[]"]
    by (simp add: py_def)
  have c: "fst (get_user_search_results
          (ok (JObj [(py ''docs'', JArr [JObj [(py ''title'', JStr (py ''Beowulf''))]])]))
          (py ''beowulf'') st0)
     = Inr (py ''Title: Beowulf\<newline>Author: Unknown Author'')"
    by (simp add: user_of_json[OF json_ok] first_result_def and_then_def format_value_def)
       (simp add: py_def)
  from b c show ?thesis by simp
qed

subsection \<open>Quitting and prompting again\<close>

text \<open>
  Claim C8. For every line read, the loop ends exactly when the line equals
  \<^verbatim>\<open>quit\<close> compared case-insensitively, and the rest of the input is not read.
  An empty or whitespace-only line is never such a line, so the order of the two tests
  is not observable; it makes the body print the validation message and nothing else
  (the session is not used, no search is made) and the loop prompts again.
\<close>
theorem loop_quits_or_reprompts:
  "(fst (loop_body w line st) = Break \<longleftrightarrow> quit_ignoring_case line)
   \<and> (quit_ignoring_case line \<longrightarrow>
        main_loop w (line # rest) st = (Inr (), write_out prompt st))
   \<and> (\<not> quit_ignoring_case line \<longrightarrow>
        (\<exists>st1. main_loop w (line # rest) st = main_loop w rest st1))
   \<and> (whitespace_only line \<longrightarrow>
        \<not> quit_ignoring_case line
        \<and> loop_body w line st
            = (Continue, py_print (py ''Please enter a valid book title.'') st)
        \<and> main_loop w (line # rest) st
            = main_loop w rest
                (py_print (py ''Please enter a valid book title.'') (write_out prompt st)))"
proof (intro conjI impI)
  show "fst (loop_body w line st) = Break \<longleftrightarrow> quit_ignoring_case line"
  proof (cases "quit_ignoring_case line")
    case True
    then show ?thesis by (simp add: loop_body_quit)
  next
    case False
    then obtain st1 where "loop_body w line st = (Continue, st1)"
      using loop_body_other by blast
    with False show ?thesis by simp
  qed
next
  assume "quit_ignoring_case line"
  then show "main_loop w (line # rest) st = (Inr (), write_out prompt st)"
    by (simp add: loop_body_quit)
next
  assume "\<not> quit_ignoring_case line"
  then obtain st1 where "loop_body w line (write_out prompt st) = (Continue, st1)"
    using loop_body_other by blast
  then show "\<exists>st1. main_loop w (line # rest) st = main_loop w rest st1"
    by auto
next
  assume b: "whitespace_only line"
  then show "\<not> quit_ignoring_case line" by (rule whitespace_not_quit)
  from b show "loop_body w line st
            = (Continue, py_print (py ''Please enter a valid book title.'') st)"
    by (rule loop_body_blank)
  from b show "main_loop w (line # rest) st
            = main_loop w rest
                (py_print (py ''Please enter a valid book title.'') (write_out prompt st))"
    by (simp add: loop_body_blank)
qed

theorem loop_quits_or_reprompts_witness:
  "quit_ignoring_case (py ''QuIt'')
   \<and> main_loop (ok dune) [py ''QuIt'', py ''dune''] st0 = (Inr (), write_out prompt st0)
   \<and> whitespace_only [32, 9, 160]
   \<and> main_loop (ok dune) [[32, 9, 160], py ''quit''] st0
       = (Inr (), write_out prompt
            (py_print (py ''Please enter a valid book title.'') (write_out prompt st0)))
   \<and> \<not> quit_ignoring_case (py ''quit '')
   \<and> fst (loop_body (ok dune) (py ''quit '') st0) \<noteq> Break"
proof -
  have a: "quit_ignoring_case (py ''QuIt'')"
    by (simp add: quit_ignoring_case_def py_def)
  have b: "whitespace_only [32, 9, 160]"
    by (simp add: whitespace_only_def isspace_def)
  have c: "quit_ignoring_case (py ''quit'')"
    by (simp add: quit_ignoring_case_def py_def)
  have d: "\<not> quit_ignoring_case (py ''quit '')"
    by (simp add: quit_ignoring_case_def py_def)
  have e: "main_loop (ok dune) [py ''QuIt'', py ''dune''] st0 = (Inr (), write_out prompt st0)"
    using a loop_quits_or_reprompts[of "ok dune" "py ''QuIt''" st0 "[py ''dune'']"] by blast
  have f: "main_loop (ok dune) [[32, 9, 160], py ''quit''] st0
       = main_loop (ok dune) [py ''quit'']
           (py_print (py ''Please enter a valid book title.'') (write_out prompt st0))"
    using b loop_quits_or_reprompts[of "ok dune" "[32, 9, 160]" st0 "[py ''quit'']"] by blast
  have g: "main_loop (ok dune) [py ''quit'']
           (py_print (py ''Please enter a valid book title.'') (write_out prompt st0))
        = (Inr (), write_out prompt
            (py_print (py ''Please enter a valid book title.'') (write_out prompt st0)))"
    using c loop_quits_or_reprompts[of "ok dune" "py ''quit''"
        "py_print (py ''Please enter a valid book title.'') (write_out prompt st0)" "[]"]
    by blast
  have h: "fst (loop_body (ok dune) (py ''quit '') st0) \<noteq> Break"
    using d loop_quits_or_reprompts[of "ok dune" "py ''quit ''" st0 "[]"] by blast
  from a b d e f g h show ?thesis by simp
qed

end
